theory Spec2Isabelle
  imports Main "HOL-Library.AList"
begin

section \<open>SeedAndPath: the seed and derivation-path step of the import wizard\<close>

text \<open>
  The source is \<^verbatim>\<open>packages/extension-ui/src/Popup/ImportSeed/SeedAndPath.tsx\<close>, a React
  function component. Its hook state is a record, the callbacks it is given
  (\<^verbatim>\<open>onAccountChange\<close>, \<^verbatim>\<open>onTypeChange\<close>) and the call to \<^verbatim>\<open>validateSeed\<close> are recorded as a
  list of calls, and the promise returned by \<^verbatim>\<open>validateSeed\<close> is a request in flight that
  an event settles later, running the \<^verbatim>\<open>then\<close> or the \<^verbatim>\<open>catch\<close> callback of the effect
  that issued it.
\<close>

subsection \<open>JavaScript values\<close>

text \<open>
  A \<^verbatim>\<open>KeypairType\<close> is a string at run time. An object with string properties is a list
  of key/value pairs in insertion order.
\<close>

type_synonym KeypairType = string

type_synonym obj = "(string \<times> string) list"

text \<open>A string is truthy when it is not empty; \<^verbatim>\<open>null\<close> is falsy.\<close>

definition truthy :: "string \<Rightarrow> bool" where
  "truthy s = (s \<noteq> [])"

fun truthy_opt :: "string option \<Rightarrow> bool" where
  "truthy_opt None = False"
| "truthy_opt (Some s) = truthy s"

text \<open>The expression \<^verbatim>\<open>x || ''\<close> for a \<^verbatim>\<open>string | null\<close>.\<close>

fun or_empty :: "string option \<Rightarrow> string" where
  "or_empty None = []"
| "or_empty (Some s) = (if truthy s then s else [])"

text \<open>
  Modelled from the spec: \<^verbatim>\<open>objectSpread\<close> is imported from @polkadot/util and is not under
  src/. It copies the own properties of each source into the destination, from the
  first source to the last, so a later source overwrites a property of an earlier one
  (the spec: the returned account fields are merged with the current network and
  algorithm selections). Assigning to a property that exists keeps its place; a new
  property goes last.
\<close>

definition assign :: "obj \<Rightarrow> obj \<Rightarrow> obj" where
  "assign dest src = foldl (\<lambda>d kv. AList.update (fst kv) (snd kv) d) dest src"

definition objectSpread :: "obj \<Rightarrow> obj list \<Rightarrow> obj" where
  "objectSpread dest sources = foldl assign dest sources"

text \<open>
  Modelled from the spec: the result type of \<^verbatim>\<open>validateSeed\<close> is declared in the messaging
  module, which is not under src/. On success the validator returns a record with at
  least \<^verbatim>\<open>address: string\<close>, plus possibly other fields.
\<close>

datatype ValidatedAccount = ValidatedAccount (va_address: string) (va_others: obj)

definition props_of :: "ValidatedAccount \<Rightarrow> obj" where
  "props_of v = (''address'', va_address v) # AList.delete ''address'' (va_others v)"

subsection \<open>The component\<close>

text \<open>Lines 28 to 32.\<close>

definition keypairTypes :: "string list" where
  "keypairTypes = [''ed25519'', ''sr25519'', ''ecdsa'']"

definition isKeypairType :: "string \<Rightarrow> bool" where
  "isKeypairType v = (v \<in> set keypairTypes)"

text \<open>The six \<^verbatim>\<open>useState\<close> cells of lines 37 to 42, with their initial values.\<close>

record State =
  address :: string
  seed :: "string option"
  path :: "string option"
  advanced :: bool
  error :: string
  genesis :: string

definition initial :: State where
  "initial = \<lparr>address = [], seed = None, path = None, advanced = False, error = [],
     genesis = []\<rparr>"

text \<open>What the component calls outside itself.\<close>

datatype Call =
    OnAccountChange "obj option"
  | ValidateSeed string KeypairType
  | OnTypeChange KeypairType

text \<open>
  The variables of a render that the \<^verbatim>\<open>then\<close> and \<^verbatim>\<open>catch\<close> callbacks of its effect close
  over: they keep the values of the render in which the effect ran.
\<close>

record Closure =
  c_seed :: "string option"
  c_path :: "string option"
  c_genesis :: string
  c_type :: KeypairType

text \<open>
  The body of the effect (lines 49 to 60), run in a render with state \<open>s\<close> and prop
  \<^verbatim>\<open>type\<close> = \<open>ty\<close>: the calls it makes at once, and the request it leaves in flight.
\<close>

definition useEffect :: "State \<Rightarrow> KeypairType \<Rightarrow> Call list \<times> Closure option" where
  "useEffect s ty =
     (if \<not> truthy_opt (seed s) then ([OnAccountChange None], None)
      else ([ValidateSeed (or_empty (seed s) @ or_empty (path s)) ty],
            Some \<lparr>c_seed = seed s, c_path = path s, c_genesis = genesis s, c_type = ty\<rparr>))"

text \<open>The \<^verbatim>\<open>then\<close> callback (lines 61 to 67), run on the state \<open>s\<close> of the time it is called.\<close>

definition on_then :: "Closure \<Rightarrow> ValidatedAccount \<Rightarrow> State \<Rightarrow> State \<times> Call list" where
  "on_then c v s =
     (s\<lparr>error := [], address := va_address v\<rparr>,
      [OnAccountChange (Some (objectSpread []
         [props_of v, [(''genesis'', c_genesis c), (''type'', c_type c)]]))])"

text \<open>
  The \<^verbatim>\<open>catch\<close> callback (lines 68 to 75). The translation function \<open>t\<close> of
  \<^verbatim>\<open>useTranslation\<close> is a parameter.
\<close>

definition on_catch :: "(string \<Rightarrow> string) \<Rightarrow> Closure \<Rightarrow> State \<Rightarrow> State \<times> Call list" where
  "on_catch t c s =
     (s\<lparr>address := [],
        error := (if truthy_opt (c_path c)
                  then t ''Invalid mnemonic seed or derivation path''
                  else t ''Invalid mnemonic seed'')\<rparr>,
      [OnAccountChange None])"

text \<open>\<^verbatim>\<open>_onToggleAdvanced\<close> (lines 78 to 80).\<close>

definition onToggleAdvanced :: "State \<Rightarrow> State" where
  "onToggleAdvanced s = s\<lparr>advanced := \<not> advanced s\<rparr>"

text \<open>\<^verbatim>\<open>_onTypeChange\<close> (lines 82 to 88).\<close>

definition onTypeChange :: "string \<Rightarrow> State \<Rightarrow> State \<times> Call list" where
  "onTypeChange v s =
     (if isKeypairType v then (s, [OnTypeChange v]) else (s\<lparr>error := []\<rparr>, []))"

text \<open>The \<^verbatim>\<open>isDisabled\<close> prop of the Next button (line 154): \<^verbatim>\<open>!address || !!error\<close>.\<close>

definition isDisabled :: "State \<Rightarrow> bool" where
  "isDisabled s = (\<not> truthy (address s) \<or> \<not> \<not> truthy (error s))"

subsection \<open>The component at run time\<close>

text \<open>
  The mounted component: its state, the \<^verbatim>\<open>type\<close> prop its parent passes, the validation
  requests in flight (oldest first), the round-trips that have completed (latest
  first) and the calls made so far (oldest first).
\<close>

datatype Outcome = Resolved ValidatedAccount | Rejected

record Sys =
  form :: State
  ktype :: KeypairType
  inflight :: "Closure list"
  completed :: "(Closure \<times> Outcome) list"
  calls :: "Call list"

text \<open>
  The dependency list of the effect (line 76). \<^verbatim>\<open>t\<close> and \<^verbatim>\<open>onAccountChange\<close> are taken to
  keep their identity between renders.
\<close>

definition deps :: "Sys \<Rightarrow> string \<times> string option \<times> string option \<times> KeypairType" where
  "deps sys = (genesis (form sys), seed (form sys), path (form sys), ktype sys)"

definition run_effect :: "Sys \<Rightarrow> Sys" where
  "run_effect sys =
     (case useEffect (form sys) (ktype sys) of
        (cs, req) \<Rightarrow>
          sys\<lparr>inflight := inflight sys @ (case req of None \<Rightarrow> [] | Some c \<Rightarrow> [c]),
              calls := calls sys @ cs\<rparr>)"

text \<open>After a render, React runs the effect when a dependency has changed.\<close>

definition rerender :: "Sys \<Rightarrow> Sys \<Rightarrow> Sys" where
  "rerender old new = (if deps new \<noteq> deps old then run_effect new else new)"

text \<open>The effect also runs after the first render.\<close>

definition mount :: "KeypairType \<Rightarrow> Sys" where
  "mount ty =
     run_effect \<lparr>form = initial, ktype = ty, inflight = [], completed = [], calls = []\<rparr>"

text \<open>
  What can happen to the mounted component: the inputs call a setter (the text area
  \<^verbatim>\<open>setSeed\<close>, the path input \<^verbatim>\<open>setPath\<close>, the network dropdown \<^verbatim>\<open>setGenesis\<close>), the toggle
  is clicked, the algorithm dropdown calls \<^verbatim>\<open>_onTypeChange\<close>, the parent passes a new
  \<^verbatim>\<open>type\<close>, and the request at position \<open>i\<close> of those in flight settles.
\<close>

datatype Event =
    SetSeed "string option"
  | SetPath "string option"
  | SetGenesis string
  | ToggleAdvanced
  | TypeChange string
  | TypeProp KeypairType
  | Settle nat Outcome

definition settle :: "(string \<Rightarrow> string) \<Rightarrow> nat \<Rightarrow> Outcome \<Rightarrow> Sys \<Rightarrow> Sys" where
  "settle t i out sys =
     (if i < length (inflight sys) then
        (case (case out of
                 Resolved v \<Rightarrow> on_then (inflight sys ! i) v (form sys)
               | Rejected \<Rightarrow> on_catch t (inflight sys ! i) (form sys)) of
           (s', cs) \<Rightarrow>
             sys\<lparr>form := s',
                 inflight := take i (inflight sys) @ drop (Suc i) (inflight sys),
                 completed := (inflight sys ! i, out) # completed sys,
                 calls := calls sys @ cs\<rparr>)
      else sys)"

fun step :: "(string \<Rightarrow> string) \<Rightarrow> Event \<Rightarrow> Sys \<Rightarrow> Sys" where
  "step t (SetSeed v) sys = rerender sys (sys\<lparr>form := (form sys)\<lparr>seed := v\<rparr>\<rparr>)"
| "step t (SetPath v) sys = rerender sys (sys\<lparr>form := (form sys)\<lparr>path := v\<rparr>\<rparr>)"
| "step t (SetGenesis v) sys = rerender sys (sys\<lparr>form := (form sys)\<lparr>genesis := v\<rparr>\<rparr>)"
| "step t ToggleAdvanced sys = rerender sys (sys\<lparr>form := onToggleAdvanced (form sys)\<rparr>)"
| "step t (TypeChange v) sys =
     (case onTypeChange v (form sys) of
        (s', cs) \<Rightarrow> rerender sys (sys\<lparr>form := s', calls := calls sys @ cs\<rparr>))"
| "step t (TypeProp ty) sys = rerender sys (sys\<lparr>ktype := ty\<rparr>)"
| "step t (Settle i out) sys = rerender sys (settle t i out sys)"

definition run :: "(string \<Rightarrow> string) \<Rightarrow> KeypairType \<Rightarrow> Event list \<Rightarrow> Sys" where
  "run t ty es = foldl (\<lambda>sys e. step t e sys) (mount ty) es"

text \<open>The English locale: \<open>t\<close> returns its key.\<close>

definition t_en :: "string \<Rightarrow> string" where
  "t_en k = k"

subsection \<open>Observations on a run\<close>

text \<open>The argument of the latest call, when that call is \<^verbatim>\<open>onAccountChange\<close>.\<close>

definition last_candidate :: "Sys \<Rightarrow> obj option" where
  "last_candidate sys = (case rev (calls sys) of OnAccountChange a # _ \<Rightarrow> a | _ \<Rightarrow> None)"

definition candidate_field :: "Sys \<Rightarrow> string \<Rightarrow> string option" where
  "candidate_field sys k = (case last_candidate sys of None \<Rightarrow> None | Some a \<Rightarrow> map_of a k)"

text \<open>The outcome of the round-trip that completed last, and the address it returned.\<close>

definition last_completed :: "Sys \<Rightarrow> Outcome option" where
  "last_completed sys = (case completed sys of [] \<Rightarrow> None | r # _ \<Rightarrow> Some (snd r))"

definition returned_address :: "Outcome option \<Rightarrow> string" where
  "returned_address r = (case r of Some (Resolved v) \<Rightarrow> va_address v | _ \<Rightarrow> [])"

text \<open>The address the component holds is the one the latest completed round-trip returned.\<close>

definition address_inv :: "Sys \<Rightarrow> bool" where
  "address_inv sys = (address (form sys) = returned_address (last_completed sys))"

definition succeeded_with_address :: "Outcome option \<Rightarrow> bool" where
  "succeeded_with_address r = truthy (returned_address r)"

definition succeeded :: "Outcome option \<Rightarrow> bool" where
  "succeeded r = (case r of Some (Resolved v) \<Rightarrow> True | _ \<Rightarrow> False)"

text \<open>
  The outcome of the latest completed round-trip among those issued for the seed, path
  and algorithm the component has now.
\<close>

definition issued_for_current :: "Sys \<Rightarrow> Closure \<Rightarrow> bool" where
  "issued_for_current sys c =
     (c_seed c = seed (form sys) \<and> c_path c = path (form sys) \<and> c_type c = ktype sys)"

definition last_completed_for_current :: "Sys \<Rightarrow> Outcome option" where
  "last_completed_for_current sys =
     map_option snd (find (\<lambda>r. issued_for_current sys (fst r)) (completed sys))"

text \<open>An event that sets the seed to \<^verbatim>\<open>null\<close> or to the empty string.\<close>

fun clears_seed :: "Event \<Rightarrow> bool" where
  "clears_seed (SetSeed v) = (\<not> truthy_opt v)"
| "clears_seed _ = False"

subsection \<open>Sample values\<close>

definition abc_request :: Closure where
  "abc_request = \<lparr>c_seed = Some ''abc'', c_path = None, c_genesis = [], c_type = ''sr25519''\<rparr>"

definition abc_account :: ValidatedAccount where
  "abc_account = ValidatedAccount ''5Abc'' [(''suri'', ''abc'')]"

text \<open>A seed is typed, its validation succeeds, and the seed is deleted again.\<close>

definition cleared_after_success :: Sys where
  "cleared_after_success =
     run t_en ''sr25519''
       [SetSeed (Some ''abc''), Settle 0 (Resolved abc_account), SetSeed (Some [])]"

section \<open>Basic facts\<close>

lemmas model_defs = run_def mount_def run_effect_def useEffect_def initial_def rerender_def
  deps_def settle_def on_then_def on_catch_def objectSpread_def assign_def props_of_def
  truthy_def onToggleAdvanced_def onTypeChange_def isKeypairType_def keypairTypes_def t_en_def

lemma useEffect_empty_seed:
  "\<not> truthy_opt (seed s) \<Longrightarrow> useEffect s ty = ([OnAccountChange None], None)"
  by (simp add: useEffect_def)

lemma useEffect_closure:
  assumes "useEffect s ty = (cs, Some c)"
  shows "c_seed c = seed s" and "c_path c = path s" and "c_genesis c = genesis s"
    and "c_type c = ty"
  using assms by (auto simp: useEffect_def split: if_splits)

lemma run_effect_frame:
  "form (run_effect sys) = form sys \<and> completed (run_effect sys) = completed sys"
  by (simp add: run_effect_def split: prod.split)

lemma rerender_frame:
  "form (rerender old new) = form new \<and> completed (rerender old new) = completed new"
  by (simp add: rerender_def run_effect_frame)

text \<open>Settling a request changes no dependency of the effect, so the effect does not run.\<close>

lemma rerender_settle: "rerender sys (settle t i out sys) = settle t i out sys"
  by (cases out)
    (simp_all add: rerender_def deps_def settle_def on_then_def on_catch_def)

text \<open>Copying properties one by one: on a key both have, the source wins.\<close>

lemma map_of_assign: "map_of (assign dest src) = map_of dest ++ map_of (rev src)"
proof -
  have "map_of (foldl (\<lambda>d kv. AList.update (fst kv) (snd kv) d) dest src)
      = map_of dest ++ map_of (rev src)" for src
  proof (induction src rule: rev_induct)
    case Nil
    show ?case by simp
  next
    case (snoc kv src)
    then show ?case
      by (cases kv) (auto simp: update_conv' map_add_def fun_eq_iff)
  qed
  then show ?thesis by (simp add: assign_def)
qed

lemma last_candidate_snoc:
  "calls sys = cs @ [OnAccountChange a] \<Longrightarrow> last_candidate sys = a"
  by (simp add: last_candidate_def)

subsection \<open>The address follows the round-trip that completed last\<close>

lemma address_inv_mount: "address_inv (mount ty)"
  by (simp add: address_inv_def mount_def run_effect_frame initial_def
      last_completed_def returned_address_def)

lemma address_inv_settle: "address_inv sys \<Longrightarrow> address_inv (settle t i out sys)"
  by (cases out)
    (simp_all add: address_inv_def settle_def on_then_def on_catch_def last_completed_def
      returned_address_def)

lemma address_inv_step: "address_inv sys \<Longrightarrow> address_inv (step t e sys)"
proof (cases e)
  case (Settle i out)
  assume "address_inv sys"
  then have "address_inv (settle t i out sys)" by (rule address_inv_settle)
  then show ?thesis
    by (simp add: Settle address_inv_def rerender_frame last_completed_def)
qed (simp_all add: address_inv_def rerender_frame last_completed_def
      onToggleAdvanced_def onTypeChange_def)

lemma address_inv_foldl:
  "address_inv sys \<Longrightarrow> address_inv (foldl (\<lambda>sys e. step t e sys) sys es)"
  by (induction es arbitrary: sys) (simp_all add: address_inv_step)

lemma address_inv_run: "address_inv (run t ty es)"
  by (simp add: run_def address_inv_foldl address_inv_mount)

section \<open>The effect\<close>

text \<open>
  C1. With an empty seed the effect forwards \<^verbatim>\<open>null\<close> through \<^verbatim>\<open>onAccountChange\<close> and does not
  call the validator (\<open>useEffect_empty_seed\<close>), but it leaves the address alone, unlike
  the \<^verbatim>\<open>catch\<close> callback, which clears it when it forwards \<^verbatim>\<open>null\<close>. So the Next button is
  not disabled in every state with an empty seed: after the seed \<^verbatim>\<open>abc\<close> has been
  validated with the address \<^verbatim>\<open>5Abc\<close> and the seed is then deleted, the seed is empty, the
  latest call is \<^verbatim>\<open>onAccountChange(null)\<close>, no request is in flight, and the Next button is
  enabled.
\<close>

theorem next_enabled_after_seed_cleared:
  "seed (form cleared_after_success) = Some []
   \<and> calls cleared_after_success =
       [OnAccountChange None, ValidateSeed ''abc'' ''sr25519'',
        OnAccountChange (Some [(''address'', ''5Abc''), (''suri'', ''abc''), (''genesis'', []),
          (''type'', ''sr25519'')]),
        OnAccountChange None]
   \<and> inflight cleared_after_success = []
   \<and> address (form cleared_after_success) = ''5Abc''
   \<and> error (form cleared_after_success) = []
   \<and> \<not> isDisabled (form cleared_after_success)"
  by (simp add: model_defs cleared_after_success_def abc_account_def isDisabled_def)

theorem next_enabled_after_seed_cleared_witness:
  "isDisabled (form cleared_after_success) = False"
  using next_enabled_after_seed_cleared by simp

text \<open>
  C2. In every state reached without the seed being set back to empty, the address is
  not empty exactly when a validation round-trip has completed and the one that
  completed last returned an address that is not empty, whichever seed, path and
  algorithm that round-trip was issued for. (What a deleted seed does to an address
  derived before is the matter of C1 and C9.)
\<close>

theorem address_tracks_last_completed:
  assumes "list_all (\<lambda>e. \<not> clears_seed e) es"
  shows "truthy (address (form (run t ty es)))
     = succeeded_with_address (last_completed (run t ty es))"
  using address_inv_run [of t ty es]
  by (simp add: address_inv_def succeeded_with_address_def)

theorem address_tracks_last_completed_witness:
  "list_all (\<lambda>e. \<not> clears_seed e)
     [SetSeed (Some ''abc''), Settle 0 (Resolved abc_account), SetSeed (Some ''abd'')]
   \<and> truthy (address (form (run t_en ''sr25519''
        [SetSeed (Some ''abc''), Settle 0 (Resolved abc_account), SetSeed (Some ''abd'')])))
   \<and> succeeded_with_address (last_completed (run t_en ''sr25519''
        [SetSeed (Some ''abc''), Settle 0 (Resolved abc_account), SetSeed (Some ''abd'')]))"
proof -
  have h: "list_all (\<lambda>e. \<not> clears_seed e)
      [SetSeed (Some ''abc''), Settle 0 (Resolved abc_account), SetSeed (Some ''abd'')]"
    by (simp add: truthy_def)
  have a: "address (form (run t_en ''sr25519''
      [SetSeed (Some ''abc''), Settle 0 (Resolved abc_account), SetSeed (Some ''abd'')]))
      = ''5Abc''"
    by (simp add: model_defs abc_account_def)
  show ?thesis
    using h a address_tracks_last_completed [OF h, of t_en "''sr25519''"]
    by (simp add: truthy_def)
qed

text \<open>
  The claim as stated ties the address to the round-trip for the present seed, path and
  algorithm. After \<^verbatim>\<open>abc\<close> has been validated and the seed is changed to \<^verbatim>\<open>abd\<close>, whose
  validation is still in flight, the address is \<^verbatim>\<open>5Abc\<close> and no round-trip for \<^verbatim>\<open>abd\<close> has
  completed.
\<close>

theorem address_for_current_inputs_counterexample:
  "truthy (address (form (run t_en ''sr25519''
       [SetSeed (Some ''abc''), Settle 0 (Resolved abc_account), SetSeed (Some ''abd'')])))
   \<noteq> succeeded (last_completed_for_current (run t_en ''sr25519''
       [SetSeed (Some ''abc''), Settle 0 (Resolved abc_account), SetSeed (Some ''abd'')]))"
  by (simp add: model_defs abc_account_def succeeded_def last_completed_for_current_def
      issued_for_current_def)

text \<open>
  C3. When the request that the effect issued in a render with state \<open>s\<close> and algorithm
  \<open>ty\<close> resolves with \<open>v\<close>, the component sets the address to the address of \<open>v\<close>, sets
  the error to the empty string, and calls \<^verbatim>\<open>onAccountChange\<close> with the properties of \<open>v\<close>
  merged with the network and the algorithm of that render, whatever the state \<open>sys\<close> is
  by then. The effect does not run again.
\<close>

theorem resolved_response:
  assumes "useEffect s ty = (cs, Some c)"
    and "i < length (inflight sys)" and "inflight sys ! i = c"
  shows "step t (Settle i (Resolved v)) sys =
     sys\<lparr>form := (form sys)\<lparr>error := [], address := va_address v\<rparr>,
         inflight := take i (inflight sys) @ drop (Suc i) (inflight sys),
         completed := (c, Resolved v) # completed sys,
         calls := calls sys @ [OnAccountChange (Some (objectSpread []
           [props_of v, [(''genesis'', genesis s), (''type'', ty)]]))]\<rparr>"
proof -
  have "step t (Settle i (Resolved v)) sys = settle t i (Resolved v) sys"
    by (simp add: rerender_settle)
  then show ?thesis
    using assms(2,3) useEffect_closure [OF assms(1)]
    by (simp add: settle_def on_then_def)
qed

theorem resolved_response_witness:
  "useEffect (initial\<lparr>seed := Some ''abc''\<rparr>) ''sr25519''
     = ([ValidateSeed ''abc'' ''sr25519''], Some abc_request)
   \<and> inflight (run t_en ''sr25519'' [SetSeed (Some ''abc'')]) = [abc_request]
   \<and> step t_en (Settle 0 (Resolved abc_account)) (run t_en ''sr25519'' [SetSeed (Some ''abc'')])
     = \<lparr>form = initial\<lparr>seed := Some ''abc'', address := ''5Abc''\<rparr>, ktype = ''sr25519'',
        inflight = [], completed = [(abc_request, Resolved abc_account)],
        calls = [OnAccountChange None, ValidateSeed ''abc'' ''sr25519'',
          OnAccountChange (Some [(''address'', ''5Abc''), (''suri'', ''abc''),
            (''genesis'', []), (''type'', ''sr25519'')])]\<rparr>"
proof -
  have h1: "useEffect (initial\<lparr>seed := Some ''abc''\<rparr>) ''sr25519''
     = ([ValidateSeed ''abc'' ''sr25519''], Some abc_request)"
    by (simp add: useEffect_def initial_def truthy_def abc_request_def)
  have s: "run t_en ''sr25519'' [SetSeed (Some ''abc'')]
     = \<lparr>form = initial\<lparr>seed := Some ''abc''\<rparr>, ktype = ''sr25519'', inflight = [abc_request],
        completed = [], calls = [OnAccountChange None, ValidateSeed ''abc'' ''sr25519'']\<rparr>"
    by (simp add: model_defs abc_request_def)
  have h2: "0 < length (inflight (run t_en ''sr25519'' [SetSeed (Some ''abc'')]))"
    and h3: "inflight (run t_en ''sr25519'' [SetSeed (Some ''abc'')]) ! 0 = abc_request"
    by (simp_all add: s)
  show ?thesis
    using h1 resolved_response [OF h1 h2 h3, of t_en abc_account]
    by (simp add: s)
      (simp add: initial_def objectSpread_def assign_def props_of_def abc_account_def)
qed

text \<open>
  The claim as stated merges the network selected at the time of the response. The
  seed \<^verbatim>\<open>abc\<close> is entered, the network is changed while its validation is in flight, and
  that validation resolves: the candidate forwarded carries the network of the render
  that issued the request, the empty string, not the network selected now.
\<close>

theorem resolved_response_stale_counterexample:
  "last_candidate (run t_en ''sr25519''
      [SetSeed (Some ''abc''), SetGenesis ''0x91b1'', Settle 0 (Resolved abc_account)])
   \<noteq> Some (objectSpread [] [props_of abc_account,
       [(''genesis'', genesis (form (run t_en ''sr25519''
           [SetSeed (Some ''abc''), SetGenesis ''0x91b1'', Settle 0 (Resolved abc_account)]))),
        (''type'', ktype (run t_en ''sr25519''
           [SetSeed (Some ''abc''), SetGenesis ''0x91b1'', Settle 0 (Resolved abc_account)]))]])"
  by (simp add: model_defs abc_account_def last_candidate_def)

text \<open>
  C4. When the request that the effect issued in a render with state \<open>s\<close> is rejected,
  the component clears the address, calls \<^verbatim>\<open>onAccountChange\<close> with \<^verbatim>\<open>null\<close>, and sets the
  error to the translation of \<^verbatim>\<open>Invalid mnemonic seed or derivation path\<close> when the path
  of that render is not empty (neither \<^verbatim>\<open>null\<close> nor the empty string) and to the translation
  of \<^verbatim>\<open>Invalid mnemonic seed\<close> when it is empty.
\<close>

theorem rejected_response:
  assumes "useEffect s ty = (cs, Some c)"
    and "i < length (inflight sys)" and "inflight sys ! i = c"
  shows "step t (Settle i Rejected) sys =
     sys\<lparr>form := (form sys)\<lparr>address := [],
           error := (if path s \<noteq> None \<and> path s \<noteq> Some []
                     then t ''Invalid mnemonic seed or derivation path''
                     else t ''Invalid mnemonic seed'')\<rparr>,
         inflight := take i (inflight sys) @ drop (Suc i) (inflight sys),
         completed := (c, Rejected) # completed sys,
         calls := calls sys @ [OnAccountChange None]\<rparr>"
proof -
  have "step t (Settle i Rejected) sys = settle t i Rejected sys"
    by (simp add: rerender_settle)
  then show ?thesis
    using assms(2,3) useEffect_closure(2) [OF assms(1)]
    by (cases "path s") (simp_all add: settle_def on_catch_def truthy_def)
qed

theorem rejected_response_witness:
  "form (step t_en (Settle 1 Rejected)
      (run t_en ''sr25519'' [SetSeed (Some ''abc''), ToggleAdvanced, SetPath (Some ''//invalid'')]))
     = initial\<lparr>seed := Some ''abc'', path := Some ''//invalid'', advanced := True,
         error := ''Invalid mnemonic seed or derivation path''\<rparr>
   \<and> form (step t_en (Settle 0 Rejected) (run t_en ''sr25519'' [SetSeed (Some ''abc'')]))
     = initial\<lparr>seed := Some ''abc'', error := ''Invalid mnemonic seed''\<rparr>
   \<and> last_candidate (step t_en (Settle 0 Rejected)
        (run t_en ''sr25519'' [SetSeed (Some ''abc'')])) = None"
proof -
  let ?c = "\<lparr>c_seed = Some ''abc'', c_path = Some ''//invalid'', c_genesis = [],
    c_type = ''sr25519''\<rparr>"
  let ?es = "[SetSeed (Some ''abc''), ToggleAdvanced, SetPath (Some ''//invalid'')]"
  have e1: "useEffect (initial\<lparr>seed := Some ''abc'', path := Some ''//invalid'',
        advanced := True\<rparr>) ''sr25519''
     = ([ValidateSeed ''abc//invalid'' ''sr25519''], Some ?c)"
    by (simp add: useEffect_def initial_def truthy_def)
  have s1: "run t_en ''sr25519'' ?es
     = \<lparr>form = initial\<lparr>seed := Some ''abc'', path := Some ''//invalid'', advanced := True\<rparr>,
        ktype = ''sr25519'', inflight = [abc_request, ?c], completed = [],
        calls = [OnAccountChange None, ValidateSeed ''abc'' ''sr25519'',
          ValidateSeed ''abc//invalid'' ''sr25519'']\<rparr>"
    by (simp add: model_defs abc_request_def)
  have e0: "useEffect (initial\<lparr>seed := Some ''abc''\<rparr>) ''sr25519''
     = ([ValidateSeed ''abc'' ''sr25519''], Some abc_request)"
    by (simp add: useEffect_def initial_def truthy_def abc_request_def)
  have s0: "run t_en ''sr25519'' [SetSeed (Some ''abc'')]
     = \<lparr>form = initial\<lparr>seed := Some ''abc''\<rparr>, ktype = ''sr25519'', inflight = [abc_request],
        completed = [], calls = [OnAccountChange None, ValidateSeed ''abc'' ''sr25519'']\<rparr>"
    by (simp add: model_defs abc_request_def)
  have r1: "step t_en (Settle 1 Rejected) (run t_en ''sr25519'' ?es)
     = \<lparr>form = initial\<lparr>seed := Some ''abc'', path := Some ''//invalid'', advanced := True,
          error := ''Invalid mnemonic seed or derivation path''\<rparr>,
        ktype = ''sr25519'', inflight = [abc_request], completed = [(?c, Rejected)],
        calls = [OnAccountChange None, ValidateSeed ''abc'' ''sr25519'',
          ValidateSeed ''abc//invalid'' ''sr25519'', OnAccountChange None]\<rparr>"
    using rejected_response [OF e1, of 1 "run t_en ''sr25519'' ?es" t_en]
    by (simp add: s1) (simp add: initial_def t_en_def)
  have r0: "step t_en (Settle 0 Rejected) (run t_en ''sr25519'' [SetSeed (Some ''abc'')])
     = \<lparr>form = initial\<lparr>seed := Some ''abc'', error := ''Invalid mnemonic seed''\<rparr>,
        ktype = ''sr25519'', inflight = [], completed = [(abc_request, Rejected)],
        calls = [OnAccountChange None, ValidateSeed ''abc'' ''sr25519'',
          OnAccountChange None]\<rparr>"
    using rejected_response [OF e0, of 0 "run t_en ''sr25519'' [SetSeed (Some ''abc'')]" t_en]
    by (simp add: s0) (simp add: initial_def t_en_def)
  show ?thesis
    unfolding r1 r0 by (simp add: last_candidate_def)
qed

text \<open>
  C5. When the seed is not empty (neither \<^verbatim>\<open>null\<close> nor the empty string), the effect calls
  the validator with the seed followed by the path, \<^verbatim>\<open>null\<close> read as the empty string, and
  with the algorithm of the render.
\<close>

theorem suri_submitted:
  assumes "seed s \<noteq> None" and "seed s \<noteq> Some []"
  shows "fst (useEffect s ty) =
     [ValidateSeed ((case seed s of None \<Rightarrow> [] | Some x \<Rightarrow> x) @
        (case path s of None \<Rightarrow> [] | Some y \<Rightarrow> y)) ty]"
  using assms by (cases "seed s"; cases "path s") (auto simp: useEffect_def truthy_def)

theorem suri_submitted_witness:
  "fst (useEffect (initial\<lparr>seed := Some ''abc'', path := Some ''//0''\<rparr>) ''ecdsa'')
     = [ValidateSeed ''abc//0'' ''ecdsa'']
   \<and> fst (useEffect (initial\<lparr>seed := Some ''abc''\<rparr>) ''sr25519'')
     = [ValidateSeed ''abc'' ''sr25519'']"
  using suri_submitted [of "initial\<lparr>seed := Some ''abc'', path := Some ''//0''\<rparr>" "''ecdsa''"]
    suri_submitted [of "initial\<lparr>seed := Some ''abc''\<rparr>" "''sr25519''"]
  by (simp add: initial_def)

section \<open>The Next button\<close>

text \<open>
  C6. The Next button is enabled exactly when the address is not empty and the error
  is empty; in every other combination of the two it is disabled.
\<close>

theorem next_enabled_iff:
  "(\<not> isDisabled s) = (address s \<noteq> [] \<and> error s = [])"
  by (simp add: isDisabled_def truthy_def)

theorem next_enabled_iff_witness:
  "\<not> isDisabled (initial\<lparr>address := ''5Abc''\<rparr>)
   \<and> isDisabled initial
   \<and> isDisabled (initial\<lparr>error := ''Invalid mnemonic seed''\<rparr>)
   \<and> isDisabled (initial\<lparr>address := ''5Abc'', error := ''Invalid mnemonic seed''\<rparr>)"
  using next_enabled_iff [of "initial\<lparr>address := ''5Abc''\<rparr>"]
    next_enabled_iff [of initial]
    next_enabled_iff [of "initial\<lparr>error := ''Invalid mnemonic seed''\<rparr>"]
    next_enabled_iff [of "initial\<lparr>address := ''5Abc'', error := ''Invalid mnemonic seed''\<rparr>"]
  by (simp add: initial_def)

section \<open>The handlers\<close>

text \<open>
  C7. A click on the toggle negates \<^verbatim>\<open>advanced\<close> and does nothing else: the seed, the
  path, the network, the algorithm, the address and the error keep their values, no
  call is made and no request is issued, so no validation starts.
\<close>

theorem toggle_only_flips:
  "step t ToggleAdvanced sys =
     sys\<lparr>form := (form sys)\<lparr>advanced := \<not> advanced (form sys)\<rparr>\<rparr>"
  by (simp add: rerender_def deps_def onToggleAdvanced_def)

theorem toggle_only_flips_witness:
  "step t_en ToggleAdvanced (run t_en ''sr25519'' [SetSeed (Some ''abc'')])
     = \<lparr>form = initial\<lparr>seed := Some ''abc'', advanced := True\<rparr>, ktype = ''sr25519'',
        inflight = [abc_request], completed = [],
        calls = [OnAccountChange None, ValidateSeed ''abc'' ''sr25519'']\<rparr>"
proof -
  have s: "run t_en ''sr25519'' [SetSeed (Some ''abc'')]
     = \<lparr>form = initial\<lparr>seed := Some ''abc''\<rparr>, ktype = ''sr25519'', inflight = [abc_request],
        completed = [], calls = [OnAccountChange None, ValidateSeed ''abc'' ''sr25519'']\<rparr>"
    by (simp add: model_defs abc_request_def)
  show ?thesis
    using toggle_only_flips [of t_en "run t_en ''sr25519'' [SetSeed (Some ''abc'')]"]
    by (simp add: s) (simp add: initial_def)
qed

text \<open>
  C8. For every string the algorithm dropdown passes: when it is \<^verbatim>\<open>ed25519\<close>, \<^verbatim>\<open>sr25519\<close> or
  \<^verbatim>\<open>ecdsa\<close>, it is forwarded through \<^verbatim>\<open>onTypeChange\<close> and the state of the component does
  not change; otherwise \<^verbatim>\<open>onTypeChange\<close> is not called and the error is cleared. The
  handler has a result for every string: no path of it throws.
\<close>

theorem type_change_guard:
  "step t (TypeChange v) sys =
     (if v \<in> {''ed25519'', ''sr25519'', ''ecdsa''}
      then sys\<lparr>calls := calls sys @ [OnTypeChange v]\<rparr>
      else sys\<lparr>form := (form sys)\<lparr>error := []\<rparr>\<rparr>)"
  by (simp add: rerender_def deps_def onTypeChange_def isKeypairType_def keypairTypes_def)

theorem type_change_guard_witness:
  "step t_en (TypeChange ''ecdsa'') (mount ''sr25519'')
     = (mount ''sr25519'')\<lparr>calls := [OnAccountChange None, OnTypeChange ''ecdsa'']\<rparr>
   \<and> step t_en (TypeChange ''ethereum'')
        ((mount ''sr25519'')\<lparr>form := initial\<lparr>error := ''Invalid mnemonic seed''\<rparr>\<rparr>)
     = mount ''sr25519''"
  using type_change_guard [of t_en "''ecdsa''" "mount ''sr25519''"]
    type_change_guard [of t_en "''ethereum''"
      "(mount ''sr25519'')\<lparr>form := initial\<lparr>error := ''Invalid mnemonic seed''\<rparr>\<rparr>"]
  by (simp add: mount_def run_effect_def useEffect_def initial_def)

section \<open>What the effect leaves alone\<close>

text \<open>
  C9. When the seed is empty (\<^verbatim>\<open>null\<close> or the empty string) the effect only forwards
  \<^verbatim>\<open>null\<close>: it changes nothing in the state of the component and leaves no request in
  flight whose callbacks could. So setting the seed to an empty value changes the seed
  only: the address and the error keep their values, and an address derived by an
  earlier successful validation is still there.
\<close>

theorem empty_seed_frame:
  assumes "sd = None \<or> sd = Some []"
  shows "run_effect (sys\<lparr>form := (form sys)\<lparr>seed := sd\<rparr>\<rparr>)
       = sys\<lparr>form := (form sys)\<lparr>seed := sd\<rparr>, calls := calls sys @ [OnAccountChange None]\<rparr>
    \<and> form (step t (SetSeed sd) sys) = (form sys)\<lparr>seed := sd\<rparr>
    \<and> inflight (step t (SetSeed sd) sys) = inflight sys
    \<and> address (form (step t (SetSeed sd) sys)) = address (form sys)
    \<and> error (form (step t (SetSeed sd) sys)) = error (form sys)"
proof -
  have e: "useEffect ((form sys)\<lparr>seed := sd\<rparr>) (ktype sys) = ([OnAccountChange None], None)"
    using assms by (auto simp: useEffect_empty_seed truthy_def)
  then have r: "run_effect (sys\<lparr>form := (form sys)\<lparr>seed := sd\<rparr>\<rparr>)
       = sys\<lparr>form := (form sys)\<lparr>seed := sd\<rparr>, calls := calls sys @ [OnAccountChange None]\<rparr>"
    by (simp add: run_effect_def)
  then show ?thesis
    by (simp add: rerender_def)
qed

theorem empty_seed_frame_witness:
  "form (step t_en (SetSeed (Some []))
      (run t_en ''sr25519'' [SetSeed (Some ''abc''), Settle 0 (Resolved abc_account)]))
     = initial\<lparr>seed := Some [], address := ''5Abc''\<rparr>
   \<and> inflight (step t_en (SetSeed (Some []))
      (run t_en ''sr25519'' [SetSeed (Some ''abc''), Settle 0 (Resolved abc_account)])) = []"
proof -
  have s: "form (run t_en ''sr25519'' [SetSeed (Some ''abc''), Settle 0 (Resolved abc_account)])
     = initial\<lparr>seed := Some ''abc'', address := ''5Abc''\<rparr>"
    and i: "inflight (run t_en ''sr25519''
      [SetSeed (Some ''abc''), Settle 0 (Resolved abc_account)]) = []"
    by (simp_all add: model_defs abc_account_def)
  show ?thesis
    using empty_seed_frame [of "Some []"
        "run t_en ''sr25519'' [SetSeed (Some ''abc''), Settle 0 (Resolved abc_account)]" t_en]
    by (simp add: s i)
qed

section \<open>The candidate forwarded on success\<close>

text \<open>
  C10. In the candidate forwarded when a request resolves, \<^verbatim>\<open>genesis\<close> and \<^verbatim>\<open>type\<close> are the
  network and the algorithm of the render whose effect issued the request, whatever
  properties of those names the response of the validator has: the selections are
  merged last.
\<close>

theorem selections_merged_last:
  assumes "useEffect s ty = (cs, Some c)"
    and "i < length (inflight sys)" and "inflight sys ! i = c"
  shows "candidate_field (step t (Settle i (Resolved v)) sys) ''genesis'' = Some (genesis s)
     \<and> candidate_field (step t (Settle i (Resolved v)) sys) ''type'' = Some ty"
proof -
  let ?a = "objectSpread [] [props_of v, [(''genesis'', genesis s), (''type'', ty)]]"
  have "step t (Settle i (Resolved v)) sys = settle t i (Resolved v) sys"
    by (simp add: rerender_settle)
  then have "calls (step t (Settle i (Resolved v)) sys)
      = calls sys @ [OnAccountChange (Some ?a)]"
    using assms(2,3) useEffect_closure [OF assms(1)]
    by (simp add: settle_def on_then_def)
  then have "last_candidate (step t (Settle i (Resolved v)) sys) = Some ?a"
    by (rule last_candidate_snoc)
  moreover have "map_of ?a ''genesis'' = Some (genesis s)" "map_of ?a ''type'' = Some ty"
    by (simp_all add: objectSpread_def map_of_assign)
  ultimately show ?thesis
    by (simp add: candidate_field_def)
qed

theorem selections_merged_last_witness:
  "candidate_field (step t_en
      (Settle 0 (Resolved (ValidatedAccount ''5Abc'' [(''genesis'', ''0xdead''), (''type'', ''ecdsa'')])))
      (run t_en ''sr25519'' [SetGenesis ''0x91b1'', SetSeed (Some ''abc'')])) ''genesis''
     = Some ''0x91b1''
   \<and> candidate_field (step t_en
      (Settle 0 (Resolved (ValidatedAccount ''5Abc'' [(''genesis'', ''0xdead''), (''type'', ''ecdsa'')])))
      (run t_en ''sr25519'' [SetGenesis ''0x91b1'', SetSeed (Some ''abc'')])) ''type''
     = Some ''sr25519''"
proof -
  let ?c = "\<lparr>c_seed = Some ''abc'', c_path = None, c_genesis = ''0x91b1'', c_type = ''sr25519''\<rparr>"
  have e: "useEffect (initial\<lparr>seed := Some ''abc'', genesis := ''0x91b1''\<rparr>) ''sr25519''
     = ([ValidateSeed ''abc'' ''sr25519''], Some ?c)"
    by (simp add: useEffect_def initial_def truthy_def)
  have s: "inflight (run t_en ''sr25519'' [SetGenesis ''0x91b1'', SetSeed (Some ''abc'')]) = [?c]"
    by (simp add: model_defs)
  have h2: "0 < length (inflight (run t_en ''sr25519''
      [SetGenesis ''0x91b1'', SetSeed (Some ''abc'')]))"
    and h3: "inflight (run t_en ''sr25519''
      [SetGenesis ''0x91b1'', SetSeed (Some ''abc'')]) ! 0 = ?c"
    by (simp_all add: s)
  show ?thesis
    using selections_merged_last [OF e h2 h3, of t_en]
    by (simp add: initial_def)
qed

text \<open>
  The claim as stated names the selections the component has at the time of the
  response. The seed \<^verbatim>\<open>abc\<close> is entered under \<^verbatim>\<open>sr25519\<close>; while its validation is in flight
  the user opens the advanced fields and picks \<^verbatim>\<open>ed25519\<close>, which the parent passes back as
  the new \<^verbatim>\<open>type\<close>; then the first validation resolves. The \<^verbatim>\<open>type\<close> of the candidate
  forwarded is \<^verbatim>\<open>sr25519\<close>, not the algorithm selected now.
\<close>

theorem selections_stale_counterexample:
  "candidate_field (run t_en ''sr25519''
      [SetSeed (Some ''abc''), ToggleAdvanced, TypeChange ''ed25519'', TypeProp ''ed25519'',
       Settle 0 (Resolved abc_account)]) ''type''
   \<noteq> Some (ktype (run t_en ''sr25519''
      [SetSeed (Some ''abc''), ToggleAdvanced, TypeChange ''ed25519'', TypeProp ''ed25519'',
       Settle 0 (Resolved abc_account)]))"
  by (simp add: model_defs abc_account_def candidate_field_def last_candidate_def)

end
